theory Spec2Isabelle
  imports Main
begin

section \<open>Data model (models.py)\<close>

text \<open>
  A naive Python \<open>datetime\<close> is modelled as the number of microseconds since midnight of
  day one of its calendar, a \<open>timedelta\<close> as a number of microseconds. Comparison, addition
  and subtraction are those of the integers; \<open>hour\<close> is the hour of the day. The ends
  of the calendar (years 1 and 9999), where Python's arithmetic raises, are not modelled.
\<close>

type_synonym datetime = int
type_synonym timedelta = int

definition timedelta_seconds :: "int \<Rightarrow> timedelta" where
  "timedelta_seconds n = n * 1000000"

definition timedelta_hours :: "int \<Rightarrow> timedelta" where
  "timedelta_hours n = n * 3600000000"

definition timedelta_days :: "int \<Rightarrow> timedelta" where
  "timedelta_days n = n * 86400000000"

definition hour :: "datetime \<Rightarrow> int" where
  "hour t = (t div 3600000000) mod 24"

datatype ProductStatus = ACTIVE | COMING_SOON

datatype BookingStatus = PENDING | CONFIRMED | COMPLETED | CANCELLED

text \<open>\<open>Product.price\<close> is \<open>Numeric(10, 2)\<close>: the field \<open>p_price\<close> holds it in hundredths.\<close>

record Product =
  p_id :: int
  p_name :: string
  p_description :: "string option"
  p_price :: int
  p_status :: ProductStatus
  p_is_membership :: bool
  p_stripe_price_id :: "string option"

record Booking =
  b_id :: int
  b_user_id :: "int option"
  b_product_id :: int
  b_name :: string
  b_email :: string
  b_phone :: string
  b_start :: datetime
  b_end :: datetime
  b_notes :: "string option"
  b_stripe_payment_id :: "string option"
  b_status :: BookingStatus
  b_created_at :: datetime

text \<open>\<open>Booking.status.in_([BookingStatus.PENDING, BookingStatus.CONFIRMED])\<close>\<close>

definition status_active :: "Booking \<Rightarrow> bool" where
  "status_active b = (b_status b = PENDING \<or> b_status b = CONFIRMED)"

text \<open>The three-way \<open>db.or_\<close> of \<open>Booking.check_availability\<close>, for one row.\<close>

definition intersects :: "Booking \<Rightarrow> datetime \<Rightarrow> datetime \<Rightarrow> bool" where
  "intersects b start_time end_time =
     ((b_start b \<le> start_time \<and> b_end b > start_time) \<or>
      (b_start b < end_time \<and> b_end b \<ge> end_time) \<or>
      (b_start b \<ge> start_time \<and> b_end b \<le> end_time))"

text \<open>
  \<open>Booking.check_availability(start_time, end_time, exclude_booking_id=None)\<close> over the rows
  of the bookings table. \<open>if exclude_booking_id:\<close> is false for \<open>None\<close> and for \<open>0\<close>.
\<close>

definition check_availability ::
  "Booking list \<Rightarrow> datetime \<Rightarrow> datetime \<Rightarrow> int option \<Rightarrow> bool" where
  "check_availability rows start_time end_time exclude_booking_id =
     (let query = filter (\<lambda>b. status_active b \<and> intersects b start_time end_time) rows;
          query2 = (case exclude_booking_id of
                      None \<Rightarrow> query
                    | Some x \<Rightarrow> if x = 0 then query else filter (\<lambda>b. b_id b \<noteq> x) query)
      in query2 = [])"

section \<open>Form validators (forms.py)\<close>

datatype error = ValidationError string

text \<open>\<open>BookingForm.validate_start\<close>: \<open>now\<close> is \<open>datetime.now()\<close>, \<open>data\<close> is \<open>field.data\<close>.\<close>

definition validate_start :: "datetime \<Rightarrow> Booking list \<Rightarrow> datetime \<Rightarrow> error + unit" where
  "validate_start now rows data =
     (if data < now + timedelta_hours 24
      then Inl (ValidationError ''Booking must be at least 24 hours in advance.'')
      else if hour data < 5 \<or> hour data \<ge> 18
      then Inl (ValidationError ''Bookings are only available between 5 AM and 6 PM.'')
      else if \<not> check_availability rows data (data + timedelta_hours 2) None
      then Inl (ValidationError ''This time slot is not available.'')
      else Inr ())"

text \<open>\<open>BookingForm.validate_email\<close>: \<open>utcnow\<close> is \<open>datetime.utcnow()\<close>.\<close>

definition validate_email :: "datetime \<Rightarrow> Booking list \<Rightarrow> string \<Rightarrow> error + unit" where
  "validate_email utcnow rows data =
     (let cutoff_date = utcnow - timedelta_days 7;
          recent_booking = find (\<lambda>b. b_email b = data \<and> b_start b \<ge> cutoff_date \<and> status_active b) rows
      in case recent_booking of
           Some b \<Rightarrow> Inl (ValidationError ''You can only book one service per 7-day period.'')
         | None \<Rightarrow> Inr ())"

text \<open>
  The validators declared on the fields of \<open>BookingForm\<close>. \<open>DataRequired\<close> wants data
  that is true and, for a string, not blank; \<open>Length(min, max)\<close> bounds the number of
  characters (0 for missing data), with \<open>-1\<close> for no bound; \<open>Email()\<close> is a check of the address syntax, taken as a parameter.
  A \<open>SelectField\<close> accepts only a value among its choices, and \<open>BookingForm.__init__\<close> sets
  the choices of \<open>product_id\<close> to the ids of the ACTIVE products.
\<close>

definition isspace :: "char \<Rightarrow> bool" where
  "isspace c = (of_char c \<in> {9, 10, 11, 12, 13, 28, 29, 30, 31, 32 :: nat})"

definition DataRequired :: "string \<Rightarrow> bool" where
  "DataRequired data = (data \<noteq> [] \<and> filter (\<lambda>c. \<not> isspace c) data \<noteq> [])"

definition Length :: "int \<Rightarrow> int \<Rightarrow> string \<Rightarrow> bool" where
  "Length lo hi data =
     (lo \<le> int (length data) \<and> (hi = -1 \<or> int (length data) \<le> hi))"

definition product_choices :: "Product list \<Rightarrow> int list" where
  "product_choices ps = map p_id (filter (\<lambda>p. p_status p = ACTIVE) ps)"

definition valid_product_id :: "Product list \<Rightarrow> int option \<Rightarrow> bool" where
  "valid_product_id ps data =
     (case data of
        None \<Rightarrow> False
      | Some i \<Rightarrow> i \<in> set (product_choices ps) \<and> i \<noteq> 0)"

section \<open>Payment gateway (utils.py)\<close>

text \<open>
  \<open>int(float(product.price) * 100)\<close>, in IEEE 754 binary64 with round-to-nearest-even: a
  finite double is a sign, a mantissa \<open>m\<close> and an exponent \<open>e\<close>, of value \<open>m * 2 ^ e\<close>.
  \<open>round_binary64 n d\<close> is the double nearest to the positive rational \<open>n / d\<close>, with a
  mantissa of 53 bits. \<open>Numeric(10, 2)\<close> keeps a price below \<open>10 ^ 8\<close> in absolute value,
  inside the normal range of binary64, so subnormal numbers and overflow do not arise.
\<close>

fun bitlen :: "nat \<Rightarrow> nat" where
  "bitlen n = (if n = 0 then 0 else Suc (bitlen (n div 2)))"

declare bitlen.simps [simp del]

definition round_half_even :: "nat \<Rightarrow> nat \<Rightarrow> nat" where
  "round_half_even n d =
     (let q = n div d; r = n mod d
      in if 2 * r < d then q else if 2 * r > d then q + 1
         else if even q then q else q + 1)"

definition round_binary64 :: "nat \<Rightarrow> nat \<Rightarrow> nat \<times> int" where
  "round_binary64 n d =
     (if n = 0 then (0, 0)
      else
        let k = int (bitlen n) - int (bitlen d);
            reaches = (if k \<ge> 0 then d * 2 ^ nat k \<le> n else d \<le> n * 2 ^ nat (- k));
            e = (if reaches then k else k - 1) - 52;
            m = (if e \<ge> 0 then round_half_even n (d * 2 ^ nat e)
                 else round_half_even (n * 2 ^ nat (- e)) d)
        in (m, e))"

datatype double = Double bool nat int

text \<open>\<open>float(price)\<close> for a decimal price given in hundredths.\<close>

definition float_of_decimal :: "int \<Rightarrow> double" where
  "float_of_decimal c = (case round_binary64 (nat \<bar>c\<bar>) 100 of (m, e) \<Rightarrow> Double (c < 0) m e)"

text \<open>\<open>x * k\<close> for a double \<open>x\<close> and a small integer \<open>k\<close> (exact as a double).\<close>

definition float_times :: "double \<Rightarrow> nat \<Rightarrow> double" where
  "float_times x k =
     (case x of Double s m e \<Rightarrow>
        (case (if e \<ge> 0 then round_binary64 (k * m * 2 ^ nat e) 1
               else round_binary64 (k * m) (2 ^ nat (- e))) of
           (m2, e2) \<Rightarrow> Double s m2 e2))"

text \<open>\<open>int(x)\<close> truncates towards zero.\<close>

definition int_of_double :: "double \<Rightarrow> int" where
  "int_of_double x =
     (case x of Double s m e \<Rightarrow>
        (let v = (if e \<ge> 0 then int m * 2 ^ nat e else int m div 2 ^ nat (- e))
         in if s then - v else v))"

definition unit_amount_of :: "int \<Rightarrow> int" where
  "unit_amount_of price = int_of_double (float_times (float_of_decimal price) 100)"

record price_data =
  currency :: string
  product_data_name :: string
  product_data_description :: "string option"
  unit_amount :: int

datatype line_item = PriceItem string int | PriceDataItem price_data int

record session_params =
  line_items :: "line_item list"
  mode :: string
  success_url :: string
  cancel_url :: string
  automatic_tax_enabled :: bool
  billing_address_collection :: string
  customer_creation :: string

record checkout_session =
  url :: string

text \<open>
  The payment processor: the configured API key, \<open>stripe.checkout.Session.create\<close>
  (\<open>None\<close> when the call raises), and the processor's own record of which checkout
  sessions were paid.
\<close>

record Stripe =
  api_key :: "string option"
  Session_create :: "session_params \<Rightarrow> checkout_session option"
  payment_succeeded :: "string \<Rightarrow> bool"

text \<open>\<open>getattr(product, "stripe_price_id", None)\<close> is false for \<open>None\<close> and for the empty string.\<close>

definition build_line_items :: "Product \<Rightarrow> line_item list" where
  "build_line_items product =
     (case p_stripe_price_id product of
        Some pid \<Rightarrow>
          if pid \<noteq> [] then [PriceItem pid 1]
          else [PriceDataItem \<lparr>currency = ''usd'', product_data_name = p_name product,
                  product_data_description = p_description product,
                  unit_amount = unit_amount_of (p_price product)\<rparr> 1]
      | None \<Rightarrow>
          [PriceDataItem \<lparr>currency = ''usd'', product_data_name = p_name product,
             product_data_description = p_description product,
             unit_amount = unit_amount_of (p_price product)\<rparr> 1])"

definition build_session_params :: "Product \<Rightarrow> string \<Rightarrow> string \<Rightarrow> session_params" where
  "build_session_params product s_url c_url =
     \<lparr>line_items = build_line_items product, mode = ''payment'', success_url = s_url,
      cancel_url = c_url, automatic_tax_enabled = True,
      billing_address_collection = ''required'', customer_creation = ''always''\<rparr>"

definition create_stripe_checkout_session ::
  "Stripe \<Rightarrow> Product \<Rightarrow> string \<Rightarrow> string \<Rightarrow> checkout_session option" where
  "create_stripe_checkout_session gw product s_url c_url =
     (if api_key gw = None \<or> api_key gw = Some []
      then None
      else Session_create gw (build_session_params product s_url c_url))"

text \<open>\<open>get_domain\<close> reads \<open>os.environ\<close>; the result is \<open>None\<close> when the deployment variable is set
  and the domain variable is not.\<close>

definition get_domain :: "(string \<Rightarrow> string option) \<Rightarrow> string option" where
  "get_domain env =
     (if env ''REPLIT_DEPLOYMENT'' \<noteq> None \<and> env ''REPLIT_DEPLOYMENT'' \<noteq> Some []
      then env ''REPLIT_DEV_DOMAIN''
      else
        let domains = (case env ''REPLIT_DOMAINS'' of None \<Rightarrow> [] | Some d \<Rightarrow> d)
        in if domains \<noteq> [] then Some (takeWhile (\<lambda>c. c \<noteq> CHR '','') domains)
           else Some ''localhost:5000'')"

section \<open>Routes (routes.py)\<close>

text \<open>
  The state the routes read and write: the two tables, the session entry
  \<open>pending_booking_id\<close>, the flashed messages (message, category) and the mails handed to
  \<open>send_email\<close>.
\<close>

datatype mail =
    ConfirmationMail string Booking Product
  | NotificationMail string Booking Product

record State =
  products :: "Product list"
  bookings :: "Booking list"
  session_pending_booking_id :: "int option"
  flashes :: "(string \<times> string) list"
  outbox :: "mail list"

text \<open>
  What a request finds around it: the two clocks, \<open>os.environ\<close>, the payment processor,
  the id of the logged-in user if any, the syntax check of \<open>Email()\<close>, the primary key the
  store gives the next booking row, and the primary key the store reads from the text of a
  query parameter (\<open>None\<close> when the text names no row).
\<close>

record Env =
  clock_now :: datetime
  clock_utcnow :: datetime
  environ :: "string \<Rightarrow> string option"
  stripe :: Stripe
  current_user :: "int option"
  email_syntax_ok :: "string \<Rightarrow> bool"
  assigned_id :: int
  key_of_text :: "string \<Rightarrow> int option"

datatype http_method = GET | POST

text \<open>A request to \<open>/booking\<close>: the product id after \<open>coerce=int\<close> and the start after parsing
  with the field's format are \<open>None\<close> when the submitted text does not convert; the notes are
  \<open>None\<close> when the field is not submitted.\<close>

record booking_request =
  r_method :: http_method
  r_csrf_ok :: bool
  r_product_id :: "int option"
  r_name :: string
  r_email :: string
  r_phone :: string
  r_start :: "datetime option"
  r_notes :: "string option"

datatype response = Redirect string | Render string

definition validate_on_submit :: "Env \<Rightarrow> State \<Rightarrow> booking_request \<Rightarrow> bool" where
  "validate_on_submit env st req =
     (r_method req = POST \<and> r_csrf_ok req \<and>
      valid_product_id (products st) (r_product_id req) \<and>
      DataRequired (r_name req) \<and> Length 2 100 (r_name req) \<and>
      DataRequired (r_email req) \<and> email_syntax_ok env (r_email req) \<and>
      validate_email (clock_utcnow env) (bookings st) (r_email req) = Inr () \<and>
      DataRequired (r_phone req) \<and> Length 10 20 (r_phone req) \<and>
      (case r_start req of
         None \<Rightarrow> False
       | Some t \<Rightarrow> validate_start (clock_now env) (bookings st) t = Inr ()) \<and>
      Length (- 1) 500 (case r_notes req of None \<Rightarrow> [] | Some n \<Rightarrow> n))"

text \<open>\<open>Product.query.get\<close> and \<open>Booking.query.get\<close> by primary key.\<close>

definition Product_query_get :: "Product list \<Rightarrow> int option \<Rightarrow> Product option" where
  "Product_query_get ps key =
     (case key of None \<Rightarrow> None | Some i \<Rightarrow> find (\<lambda>p. p_id p = i) ps)"

fun str_nat :: "nat \<Rightarrow> string" where
  "str_nat n =
     (if n < 10 then [char_of (48 + n)]
      else str_nat (n div 10) @ [char_of (48 + n mod 10)])"

declare str_nat.simps [simp del]

definition str_int :: "int \<Rightarrow> string" where
  "str_int i = (if i < 0 then CHR ''-'' # str_nat (nat (- i)) else str_nat (nat i))"

definition callback_url :: "Env \<Rightarrow> string \<Rightarrow> int \<Rightarrow> string" where
  "callback_url env path i =
     ''https://'' @ (case get_domain (environ env) of None \<Rightarrow> ''None'' | Some d \<Rightarrow> d) @
     path @ ''?booking_id='' @ str_int i"

text \<open>The row \<open>booking\<close> builds from the form; \<open>status\<close> and \<open>created_at\<close> take their column
  defaults.\<close>

definition new_booking :: "Env \<Rightarrow> Product \<Rightarrow> booking_request \<Rightarrow> datetime \<Rightarrow> Booking" where
  "new_booking env product req t =
     \<lparr>b_id = assigned_id env, b_user_id = current_user env, b_product_id = p_id product,
      b_name = r_name req, b_email = r_email req, b_phone = r_phone req,
      b_start = t, b_end = t + timedelta_hours 2, b_notes = r_notes req,
      b_stripe_payment_id = None, b_status = PENDING, b_created_at = clock_utcnow env\<rparr>"

definition delete_booking :: "Booking \<Rightarrow> Booking list \<Rightarrow> Booking list" where
  "delete_booking b rows = filter (\<lambda>r. b_id r \<noteq> b_id b) rows"

text \<open>The body of \<open>booking\<close> under \<open>if form.validate_on_submit():\<close>, where the start has parsed.\<close>

definition booking_submit :: "Env \<Rightarrow> State \<Rightarrow> booking_request \<Rightarrow> datetime \<Rightarrow> State \<times> response" where
  "booking_submit env st req t =
     (case Product_query_get (products st) (r_product_id req) of
        None \<Rightarrow>
          (st\<lparr>flashes := flashes st @ [(''Invalid service selected.'', ''error'')]\<rparr>,
           Redirect ''/booking'')
      | Some product \<Rightarrow>
          let b = new_booking env product req t;
              st1 = st\<lparr>bookings := bookings st @ [b]\<rparr>;
              s_url = callback_url env ''/booking/success'' (b_id b);
              c_url = callback_url env ''/booking/cancel'' (b_id b)
          in case create_stripe_checkout_session (stripe env) product s_url c_url of
               Some checkout \<Rightarrow>
                 (st1\<lparr>session_pending_booking_id := Some (b_id b)\<rparr>, Redirect (url checkout))
             | None \<Rightarrow>
                 (st1\<lparr>flashes := flashes st1 @
                        [(''Payment processing is currently unavailable. Please try again later.'',
                          ''error'')],
                      bookings := delete_booking b (bookings st1)\<rparr>,
                  Render ''booking.html''))"

definition booking :: "Env \<Rightarrow> State \<Rightarrow> booking_request \<Rightarrow> State \<times> response" where
  "booking env st req =
     (if validate_on_submit env st req
      then (case r_start req of
              Some t \<Rightarrow> booking_submit env st req t
            | None \<Rightarrow> (st, Render ''booking.html''))
      else (st, Render ''booking.html''))"

text \<open>
  A request to \<open>/booking/success\<close> or \<open>/booking/cancel\<close>: the query parameters
  \<open>booking_id\<close> and \<open>payment_intent\<close>, \<open>None\<close> when absent.
\<close>

record callback_request =
  a_booking_id :: "string option"
  a_payment_intent :: "string option"

text \<open>The local variable \<open>booking_id\<close> holds a string from the query or an integer from the
  session.\<close>

datatype ident = Text string | Number int

fun truthy :: "ident option \<Rightarrow> bool" where
  "truthy None = False"
| "truthy (Some (Text s)) = (s \<noteq> [])"
| "truthy (Some (Number i)) = (i \<noteq> 0)"

text \<open>The first three lines of both callbacks; \<open>session.pop\<close> removes the session entry.\<close>

definition resolve_booking_id :: "State \<Rightarrow> callback_request \<Rightarrow> ident option \<times> State" where
  "resolve_booking_id st req =
     (if \<not> truthy (map_option Text (a_booking_id req))
      then (map_option Number (session_pending_booking_id st),
            st\<lparr>session_pending_booking_id := None\<rparr>)
      else (map_option Text (a_booking_id req), st))"

definition Booking_query_get :: "Env \<Rightarrow> Booking list \<Rightarrow> ident \<Rightarrow> Booking option" where
  "Booking_query_get env rows key =
     (case key of
        Number i \<Rightarrow> find (\<lambda>b. b_id b = i) rows
      | Text s \<Rightarrow> (case key_of_text env s of
                    None \<Rightarrow> None
                  | Some i \<Rightarrow> find (\<lambda>b. b_id b = i) rows))"

text \<open>\<open>if booking_id: booking = Booking.query.get(booking_id)\<close>, for the resolved id.\<close>

definition lookup_booking :: "Env \<Rightarrow> State \<Rightarrow> callback_request \<Rightarrow> Booking option" where
  "lookup_booking env st req =
     (case resolve_booking_id st req of (booking_id, st1) \<Rightarrow>
        if truthy booking_id
        then (case booking_id of None \<Rightarrow> None
              | Some key \<Rightarrow> Booking_query_get env (bookings st1) key)
        else None)"

text \<open>\<open>request.args.get('payment_intent', 'completed')\<close>\<close>

definition payment_reference :: "callback_request \<Rightarrow> string" where
  "payment_reference req =
     (case a_payment_intent req of None \<Rightarrow> ''completed'' | Some v \<Rightarrow> v)"

text \<open>The update the commit writes: the two changed columns of the row with the booking's
  primary key.\<close>

definition confirm_booking :: "Booking \<Rightarrow> string \<Rightarrow> Booking list \<Rightarrow> Booking list" where
  "confirm_booking b ref rows =
     map (\<lambda>r. if b_id r = b_id b
              then r\<lparr>b_status := CONFIRMED, b_stripe_payment_id := Some ref\<rparr>
              else r) rows"

text \<open>
  \<open>booking_success\<close>. Both mail helpers read \<open>booking.product\<close> before they call \<open>send_email\<close>;
  on a booking whose product row is missing the first raises after the commit, and the
  error handler renders the 500 page.
\<close>

definition booking_success :: "Env \<Rightarrow> State \<Rightarrow> callback_request \<Rightarrow> State \<times> response" where
  "booking_success env st req =
     (case resolve_booking_id st req of (booking_id, st1) \<Rightarrow>
        (case lookup_booking env st req of
           Some b \<Rightarrow>
             let ref = payment_reference req;
                 st2 = st1\<lparr>bookings := confirm_booking b ref (bookings st1)\<rparr>;
                 b2 = b\<lparr>b_status := CONFIRMED, b_stripe_payment_id := Some ref\<rparr>
             in (case find (\<lambda>p. p_id p = b_product_id b2) (products st2) of
                   None \<Rightarrow> (st2, Render ''500.html'')
                 | Some product \<Rightarrow>
                     (st2\<lparr>outbox := outbox st2 @
                            [ConfirmationMail (b_email b2) b2 product,
                             NotificationMail ''crypticmobiledetailing@gmail.com'' b2 product],
                          flashes := flashes st2 @
                            [(''Your booking has been confirmed! You will receive a confirmation email shortly.'',
                              ''success'')]\<rparr>,
                      Render ''success.html''))
         | None \<Rightarrow>
             (st1\<lparr>flashes := flashes st1 @
                    [(''Booking confirmation failed. Please contact us to verify your appointment.'',
                      ''error'')]\<rparr>,
              Redirect ''/'')))"

definition booking_cancel :: "Env \<Rightarrow> State \<Rightarrow> callback_request \<Rightarrow> State \<times> response" where
  "booking_cancel env st req =
     (case resolve_booking_id st req of (booking_id, st1) \<Rightarrow>
        let st2 = (case lookup_booking env st req of
                     Some b \<Rightarrow> st1\<lparr>bookings := delete_booking b (bookings st1)\<rparr>
                   | None \<Rightarrow> st1)
        in (st2\<lparr>flashes := flashes st2 @
                  [(''Booking was cancelled. No payment was processed.'', ''info'')]\<rparr>,
            Render ''cancel.html''))"

section \<open>Sample data\<close>

text \<open>A booking of the contact \<open>ann@example.com\<close> with the given id, start and status.\<close>

definition sample_booking :: "int \<Rightarrow> datetime \<Rightarrow> BookingStatus \<Rightarrow> Booking" where
  "sample_booking i t s =
     \<lparr>b_id = i, b_user_id = None, b_product_id = 1, b_name = ''Ann'',
      b_email = ''ann@example.com'', b_phone = ''7065550100'', b_start = t,
      b_end = t + timedelta_hours 2, b_notes = None, b_stripe_payment_id = None,
      b_status = s, b_created_at = 0\<rparr>"

text \<open>The products \<open>create_default_data\<close> seeds, with the keys of an empty table.\<close>

definition seed_products :: "Product list" where
  "seed_products =
     [\<lparr>p_id = 1, p_name = ''Premium Mobile Detail'',
       p_description = Some ''Complete interior and exterior detailing service. Includes wash, wax, interior cleaning, and tire shine.'',
       p_price = 7500, p_status = ACTIVE, p_is_membership = False, p_stripe_price_id = None\<rparr>,
      \<lparr>p_id = 2, p_name = ''Ceramic Coating Package'',
       p_description = Some ''Professional ceramic coating application for long-lasting protection.'',
       p_price = 29900, p_status = COMING_SOON, p_is_membership = False, p_stripe_price_id = None\<rparr>,
      \<lparr>p_id = 3, p_name = ''Paint Correction Service'',
       p_description = Some ''Multi-stage paint correction to remove swirl marks and scratches.'',
       p_price = 45000, p_status = COMING_SOON, p_is_membership = False, p_stripe_price_id = None\<rparr>,
      \<lparr>p_id = 4, p_name = ''Monthly Maintenance Plan'',
       p_description = Some ''Monthly mobile detailing subscription for ongoing vehicle care.'',
       p_price = 12000, p_status = COMING_SOON, p_is_membership = True, p_stripe_price_id = None\<rparr>]"

text \<open>A processor with no API key configured, on which no payment ever succeeded.\<close>

definition sample_stripe :: Stripe where
  "sample_stripe =
     \<lparr>api_key = None, Session_create = (\<lambda>ps. None), payment_succeeded = (\<lambda>u. False)\<rparr>"

text \<open>A processor with a key configured, whose every call returns a checkout session.\<close>

definition working_stripe :: Stripe where
  "working_stripe =
     \<lparr>api_key = Some ''sk_test_1'',
      Session_create = (\<lambda>ps. Some \<lparr>url = ''https://checkout.example/c1''\<rparr>),
      payment_succeeded = (\<lambda>u. False)\<rparr>"

definition sample_env :: Env where
  "sample_env =
     \<lparr>clock_now = 0, clock_utcnow = 0, environ = (\<lambda>v. None), stripe = sample_stripe,
      current_user = None, email_syntax_ok = (\<lambda>a. CHR ''@'' \<in> set a), assigned_id = 1,
      key_of_text = (\<lambda>s. if s = ''1'' then Some 1 else None)\<rparr>"

definition sample_state :: "Booking list \<Rightarrow> State" where
  "sample_state rows =
     \<lparr>products = seed_products, bookings = rows, session_pending_booking_id = None,
      flashes = [], outbox = []\<rparr>"

text \<open>A well-formed submission for the product with the given id, 34 hours ahead (10:00).\<close>

definition sample_request :: "int \<Rightarrow> booking_request" where
  "sample_request i =
     \<lparr>r_method = POST, r_csrf_ok = True, r_product_id = Some i, r_name = ''Ann'',
      r_email = ''ann@example.com'', r_phone = ''7065550100'',
      r_start = Some (timedelta_hours 34), r_notes = None\<rparr>"

section \<open>Slot validator\<close>

lemma intersects_iff:
  "b_start b < b_end b \<Longrightarrow> s < e \<Longrightarrow> intersects b s e \<longleftrightarrow> (b_start b < e \<and> s < b_end b)"
  by (auto simp: intersects_def)

lemma check_availability_None:
  "check_availability rows s e None \<longleftrightarrow> (\<forall>b \<in> set rows. \<not> (status_active b \<and> intersects b s e))"
  by (simp add: check_availability_def filter_empty_conv)

text \<open>
  C7. Two active bookings A and B with \<open>A.start < B.end\<close> and \<open>B.start < A.end\<close>: the
  three-disjunct rule holds for A's interval against row B and for B's interval against
  row A, so the availability check of either interval fails on every table that holds the
  other booking, and the two checks give the same verdict.
\<close>

theorem C7_overlap_symmetric:
  assumes "status_active A" and "status_active B"
    and "b_start A < b_end B" and "b_start B < b_end A"
  shows "intersects B (b_start A) (b_end A) \<and> intersects A (b_start B) (b_end B) \<and>
         (B \<in> set rows \<longrightarrow> \<not> check_availability rows (b_start A) (b_end A) None) \<and>
         (A \<in> set rows \<longrightarrow> \<not> check_availability rows (b_start B) (b_end B) None) \<and>
         check_availability [B] (b_start A) (b_end A) None =
           check_availability [A] (b_start B) (b_end B) None"
proof -
  have ab: "intersects B (b_start A) (b_end A)"
    using assms(3,4) unfolding intersects_def by linarith
  have ba: "intersects A (b_start B) (b_end B)"
    using assms(3,4) unfolding intersects_def by linarith
  show ?thesis
    using ab ba assms(1,2) by (auto simp: check_availability_None)
qed

theorem C7_overlap_symmetric_witness:
  "status_active (sample_booking 1 (timedelta_hours 10) PENDING) \<and>
   status_active (sample_booking 2 (timedelta_hours 11) CONFIRMED) \<and>
   b_start (sample_booking 1 (timedelta_hours 10) PENDING)
     < b_end (sample_booking 2 (timedelta_hours 11) CONFIRMED) \<and>
   b_start (sample_booking 2 (timedelta_hours 11) CONFIRMED)
     < b_end (sample_booking 1 (timedelta_hours 10) PENDING) \<and>
   \<not> check_availability [sample_booking 2 (timedelta_hours 11) CONFIRMED]
       (timedelta_hours 10) (timedelta_hours 12) None \<and>
   \<not> check_availability [sample_booking 1 (timedelta_hours 10) PENDING]
       (timedelta_hours 11) (timedelta_hours 13) None"
proof -
  let ?A = "sample_booking 1 (timedelta_hours 10) PENDING"
  let ?B = "sample_booking 2 (timedelta_hours 11) CONFIRMED"
  have h1: "status_active ?A" and h2: "status_active ?B"
    by (simp_all add: sample_booking_def status_active_def)
  have h3: "b_start ?A < b_end ?B" and h4: "b_start ?B < b_end ?A"
    by (simp_all add: sample_booking_def timedelta_hours_def)
  show ?thesis
    using h1 h2 h3 h4
      C7_overlap_symmetric [OF h1 h2 h3 h4, of "[?B]"]
      C7_overlap_symmetric [OF h1 h2 h3 h4, of "[?A]"]
    by (simp add: sample_booking_def timedelta_hours_def)
qed

text \<open>
  C8. A candidate start strictly earlier than \<open>now + 24 hours\<close> is rejected with the
  lead-time message, whatever the bookings table holds.
\<close>

theorem C8_lead_time:
  "data < now + timedelta_hours 24 \<Longrightarrow>
   validate_start now rows data =
     Inl (ValidationError ''Booking must be at least 24 hours in advance.'')"
  by (simp add: validate_start_def)

theorem C8_lead_time_witness:
  "timedelta_hours 10 < 0 + timedelta_hours 24 \<and>
   validate_start 0 [] (timedelta_hours 10) =
     Inl (ValidationError ''Booking must be at least 24 hours in advance.'')"
  using C8_lead_time [of "timedelta_hours 10" 0 "[]"]
  by (simp add: timedelta_hours_def)

lemma validate_start_accept_iff:
  "validate_start now rows data = Inr () \<longleftrightarrow>
     (now + timedelta_hours 24 \<le> data \<and> 5 \<le> hour data \<and> hour data < 18 \<and>
      check_availability rows data (data + timedelta_hours 2) None)"
  by (auto simp: validate_start_def)

text \<open>
  C9, as stated, fails: a start at 10:00, with no booking in the table, is rejected when it
  is less than 24 hours away.
\<close>

theorem C9_hours_only_counterexample:
  "5 \<le> hour (timedelta_hours 10) \<and> hour (timedelta_hours 10) < 18 \<and>
   check_availability [] (timedelta_hours 10) (timedelta_hours 10 + timedelta_hours 2) None \<and>
   validate_start 0 [] (timedelta_hours 10) =
     Inl (ValidationError ''Booking must be at least 24 hours in advance.'')"
  by (simp add: validate_start_def check_availability_def hour_def timedelta_hours_def)

text \<open>
  C9, amended. For a candidate start at least 24 hours ahead: with hour-of-day in [5, 18)
  and no conflicting interval the validator accepts (17:xx included, whatever the hour of
  start + 2h); with hour-of-day below 5 or at least 18 it rejects with the business-hours
  message, whatever the bookings table holds. Only the hour of the start is read.
\<close>

theorem C9_business_hours:
  assumes "now + timedelta_hours 24 \<le> data"
  shows "(5 \<le> hour data \<and> hour data < 18 \<and>
          check_availability rows data (data + timedelta_hours 2) None
            \<longrightarrow> validate_start now rows data = Inr ()) \<and>
         (hour data < 5 \<or> 18 \<le> hour data
            \<longrightarrow> validate_start now rows data =
                  Inl (ValidationError ''Bookings are only available between 5 AM and 6 PM.''))"
  using assms by (simp add: validate_start_def)

theorem C9_business_hours_witness:
  "0 + timedelta_hours 24 \<le> timedelta_hours 41 + 1800000000 \<and>
   hour (timedelta_hours 41 + 1800000000) = 17 \<and>
   hour (timedelta_hours 41 + 1800000000 + timedelta_hours 2) = 19 \<and>
   check_availability [] (timedelta_hours 41 + 1800000000)
     (timedelta_hours 41 + 1800000000 + timedelta_hours 2) None \<and>
   validate_start 0 [] (timedelta_hours 41 + 1800000000) = Inr () \<and>
   0 + timedelta_hours 24 \<le> timedelta_hours 42 \<and>
   hour (timedelta_hours 42) = 18 \<and>
   validate_start 0 [] (timedelta_hours 42) =
     Inl (ValidationError ''Bookings are only available between 5 AM and 6 PM.'') \<and>
   0 + timedelta_hours 24 \<le> timedelta_hours 28 \<and>
   hour (timedelta_hours 28) = 4 \<and>
   validate_start 0 [] (timedelta_hours 28) =
     Inl (ValidationError ''Bookings are only available between 5 AM and 6 PM.'')"
proof -
  have a: "0 + timedelta_hours 24 \<le> timedelta_hours 41 + 1800000000"
    and b: "0 + timedelta_hours 24 \<le> timedelta_hours 42"
    and c: "0 + timedelta_hours 24 \<le> timedelta_hours 28"
    by (simp_all add: timedelta_hours_def)
  have h: "hour (timedelta_hours 41 + 1800000000) = 17"
    "hour (timedelta_hours 41 + 1800000000 + timedelta_hours 2) = 19"
    "hour (timedelta_hours 42) = 18" "hour (timedelta_hours 28) = 4"
    by (simp_all add: hour_def timedelta_hours_def)
  have f: "check_availability [] (timedelta_hours 41 + 1800000000)
             (timedelta_hours 41 + 1800000000 + timedelta_hours 2) None"
    by (simp add: check_availability_def)
  show ?thesis
    using a b c h f
      C9_business_hours [OF a, of "[]"] C9_business_hours [OF b, of "[]"]
      C9_business_hours [OF c, of "[]"]
    by simp
qed

section \<open>Rate limiter\<close>

lemma find_Some_set: "find P xs = Some x \<Longrightarrow> x \<in> set xs \<and> P x"
  by (induction xs) (auto split: if_splits)

lemma validate_email_reject_iff:
  "validate_email utcnow rows email =
     Inl (ValidationError ''You can only book one service per 7-day period.'') \<longleftrightarrow>
   (\<exists>b \<in> set rows. b_email b = email \<and> utcnow - timedelta_days 7 \<le> b_start b \<and> status_active b)"
  by (auto simp: validate_email_def find_None_iff dest: find_Some_set split: option.splits)

lemma validate_email_accept_iff:
  "validate_email utcnow rows email = Inr () \<longleftrightarrow>
   \<not> (\<exists>b \<in> set rows. b_email b = email \<and> utcnow - timedelta_days 7 \<le> b_start b \<and> status_active b)"
  by (auto simp: validate_email_def find_None_iff dest: find_Some_set split: option.splits)

text \<open>
  C3, as stated, fails: the window has no upper end. A PENDING booking that starts two days
  after the moment of the check does not lie within the trailing 7 days, and the request
  is rejected all the same.
\<close>

theorem C3_trailing_window_counterexample:
  "validate_email (timedelta_days 10)
     [sample_booking 1 (timedelta_days 12) PENDING] ''ann@example.com'' =
     Inl (ValidationError ''You can only book one service per 7-day period.'') \<and>
   \<not> (timedelta_days 10 - timedelta_days 7 \<le> b_start (sample_booking 1 (timedelta_days 12) PENDING) \<and>
      b_start (sample_booking 1 (timedelta_days 12) PENDING) \<le> timedelta_days 10)"
  by (simp add: validate_email_def sample_booking_def status_active_def timedelta_days_def)

text \<open>
  C3, amended. The rate limiter rejects a request for a contact email if and only if that
  email has a booking with status PENDING or CONFIRMED whose start is not earlier than
  7 days before the moment of the check (later starts, also future ones, count). Given
  such a booking starting at T, a request for the same email at any time before T + 7 days
  is rejected; a request at T + 7 days + 1 second is accepted when the email has no active
  booking starting later than T.
\<close>

theorem C3_rate_limit:
  "(validate_email utcnow rows email =
      Inl (ValidationError ''You can only book one service per 7-day period.'') \<longleftrightarrow>
    (\<exists>b \<in> set rows. b_email b = email \<and> status_active b \<and>
       utcnow - timedelta_days 7 \<le> b_start b)) \<and>
   (validate_email utcnow rows email = Inr () \<longleftrightarrow>
    \<not> (\<exists>b \<in> set rows. b_email b = email \<and> status_active b \<and>
       utcnow - timedelta_days 7 \<le> b_start b)) \<and>
   (\<forall>b \<in> set rows. \<forall>t. b_email b = email \<and> status_active b \<and> t < b_start b + timedelta_days 7
      \<longrightarrow> validate_email t rows email =
            Inl (ValidationError ''You can only book one service per 7-day period.'')) \<and>
   ((\<forall>b \<in> set rows. b_email b = email \<and> status_active b \<longrightarrow> b_start b \<le> T)
      \<longrightarrow> validate_email (T + timedelta_days 7 + timedelta_seconds 1) rows email = Inr ())"
proof -
  have late: "validate_email (T + timedelta_days 7 + timedelta_seconds 1) rows email = Inr ()"
    if "\<forall>b \<in> set rows. b_email b = email \<and> status_active b \<longrightarrow> b_start b \<le> T"
    unfolding validate_email_accept_iff
    using that by (fastforce simp: timedelta_seconds_def)
  have early: "validate_email t rows email =
      Inl (ValidationError ''You can only book one service per 7-day period.'')"
    if "b \<in> set rows" "b_email b = email" "status_active b" "t < b_start b + timedelta_days 7"
    for b t
    unfolding validate_email_reject_iff
    using that by (intro bexI [of _ b]) auto
  show ?thesis
    using late early
    by (auto simp: validate_email_reject_iff validate_email_accept_iff)
qed

theorem C3_rate_limit_witness:
  "sample_booking 1 (timedelta_days 10) PENDING
     \<in> set [sample_booking 1 (timedelta_days 10) PENDING] \<and>
   b_email (sample_booking 1 (timedelta_days 10) PENDING) = ''ann@example.com'' \<and>
   status_active (sample_booking 1 (timedelta_days 10) PENDING) \<and>
   b_start (sample_booking 1 (timedelta_days 10) PENDING) = timedelta_days 10 \<and>
   validate_email (timedelta_days 10)
     [sample_booking 1 (timedelta_days 10) PENDING] ''ann@example.com'' =
     Inl (ValidationError ''You can only book one service per 7-day period.'') \<and>
   validate_email (timedelta_days 17 - timedelta_seconds 1)
     [sample_booking 1 (timedelta_days 10) PENDING] ''ann@example.com'' =
     Inl (ValidationError ''You can only book one service per 7-day period.'') \<and>
   validate_email (timedelta_days 10 + timedelta_days 7 + timedelta_seconds 1)
     [sample_booking 1 (timedelta_days 10) PENDING] ''ann@example.com'' = Inr ()"
proof -
  let ?b = "sample_booking 1 (timedelta_days 10) PENDING"
  have facts: "?b \<in> set [?b]" "b_email ?b = ''ann@example.com''" "status_active ?b"
    "b_start ?b = timedelta_days 10"
    by (simp_all add: sample_booking_def status_active_def)
  have before: "timedelta_days 10 < b_start ?b + timedelta_days 7"
    "timedelta_days 17 - timedelta_seconds 1 < b_start ?b + timedelta_days 7"
    by (simp_all add: sample_booking_def timedelta_days_def timedelta_seconds_def)
  have inst: "\<forall>b \<in> set [?b]. \<forall>t. b_email b = ''ann@example.com'' \<and> status_active b \<and>
        t < b_start b + timedelta_days 7
      \<longrightarrow> validate_email t [?b] ''ann@example.com'' =
            Inl (ValidationError ''You can only book one service per 7-day period.'')"
    and late: "(\<forall>b \<in> set [?b]. b_email b = ''ann@example.com'' \<and> status_active b
        \<longrightarrow> b_start b \<le> timedelta_days 10)
      \<longrightarrow> validate_email (timedelta_days 10 + timedelta_days 7 + timedelta_seconds 1)
            [?b] ''ann@example.com'' = Inr ()"
    using C3_rate_limit [of "timedelta_days 10" "[?b]" "''ann@example.com''" "timedelta_days 10"]
    by blast+
  have r1: "validate_email (timedelta_days 10) [?b] ''ann@example.com'' =
      Inl (ValidationError ''You can only book one service per 7-day period.'')"
    using inst facts before(1) by (metis)
  have r2: "validate_email (timedelta_days 17 - timedelta_seconds 1) [?b] ''ann@example.com'' =
      Inl (ValidationError ''You can only book one service per 7-day period.'')"
    using inst facts before(2) by (metis)
  have r3: "validate_email (timedelta_days 10 + timedelta_days 7 + timedelta_seconds 1)
      [?b] ''ann@example.com'' = Inr ()"
    using late facts by simp
  show ?thesis
    using facts r1 r2 r3 by simp
qed

section \<open>Reservation manager\<close>

lemma find_None_set: "find P xs = None \<longleftrightarrow> (\<forall>x \<in> set xs. \<not> P x)"
  by (induction xs) auto

lemma valid_product_id_found:
  "valid_product_id ps key \<Longrightarrow> \<exists>p. Product_query_get ps key = Some p"
  by (cases "Product_query_get ps key")
     (auto simp: valid_product_id_def product_choices_def Product_query_get_def find_None_set
           split: option.splits)

lemma distinct_ids_find:
  "distinct (map p_id ps) \<Longrightarrow> p \<in> set ps \<Longrightarrow> find (\<lambda>q. p_id q = p_id p) ps = Some p"
  by (induction ps) (auto simp: rev_image_eqI)

lemma not_active_not_choice:
  assumes "distinct (map p_id ps)" and "p \<in> set ps" and "p_status p \<noteq> ACTIVE"
  shows "\<not> valid_product_id ps (Some (p_id p))"
proof
  assume "valid_product_id ps (Some (p_id p))"
  then obtain q where q: "q \<in> set ps" "p_status q = ACTIVE" "p_id q = p_id p"
    by (auto simp: valid_product_id_def product_choices_def)
  from assms(1) q(1) have "find (\<lambda>r. p_id r = p_id q) ps = Some q"
    by (rule distinct_ids_find)
  then have a: "find (\<lambda>r. p_id r = p_id p) ps = Some q"
    by (simp only: q(3))
  from assms(1,2) have b: "find (\<lambda>r. p_id r = p_id p) ps = Some p"
    by (rule distinct_ids_find)
  from a b have "q = p" by (metis option.inject)
  with q(2) assms(3) show False by (metis)
qed

lemma booking_invalid_form:
  "\<not> validate_on_submit env st req \<Longrightarrow> booking env st req = (st, Render ''booking.html'')"
  by (simp add: booking_def)

lemma State_eq_bookings: "s1 = s2 \<Longrightarrow> bookings s1 = bookings (s2 :: State)"
  by (rule arg_cong)

lemma booking_submit_invalid_selection_iff:
  "booking_submit env st req t =
     (st\<lparr>flashes := flashes st @ [(''Invalid service selected.'', ''error'')]\<rparr>,
      Redirect ''/booking'') \<longleftrightarrow>
   Product_query_get (products st) (r_product_id req) = None"
  by (auto simp: booking_submit_def Let_def dest!: State_eq_bookings
           split: option.splits)

text \<open>
  C1, as stated, fails: a well-formed request for the seeded COMING_SOON product 2 does not
  end in the "invalid selection" error. The form is rendered again, nothing is flashed, no
  row is written.
\<close>

theorem C1_invalid_selection_counterexample:
  "map_option p_status
     (Product_query_get (products (sample_state [])) (r_product_id (sample_request 2))) =
     Some COMING_SOON \<and>
   booking sample_env (sample_state []) (sample_request 2) =
     (sample_state [], Render ''booking.html'')"
  by (simp add: booking_def validate_on_submit_def valid_product_id_def product_choices_def
        Product_query_get_def sample_state_def sample_request_def seed_products_def)

text \<open>
  C1, amended. A booking request whose product id is not the id of an ACTIVE product (no
  product has it, or the product with it is not ACTIVE) fails form validation: the form is
  rendered again, nothing is flashed and no booking is created. The body of the route
  re-checks existence only: it answers with "Invalid service selected." exactly when no
  product has the submitted id.
\<close>

theorem C1_product_selection:
  "(\<not> valid_product_id (products st) (r_product_id req)
      \<longrightarrow> booking env st req = (st, Render ''booking.html'')) \<and>
   (Product_query_get (products st) (r_product_id req) = None
      \<longrightarrow> booking env st req = (st, Render ''booking.html'')) \<and>
   (\<forall>p \<in> set (products st).
      distinct (map p_id (products st)) \<and> r_product_id req = Some (p_id p) \<and>
      p_status p \<noteq> ACTIVE
      \<longrightarrow> booking env st req = (st, Render ''booking.html'')) \<and>
   (booking_submit env st req t =
      (st\<lparr>flashes := flashes st @ [(''Invalid service selected.'', ''error'')]\<rparr>,
       Redirect ''/booking'') \<longleftrightarrow>
    Product_query_get (products st) (r_product_id req) = None)"
proof -
  have invalid: "booking env st req = (st, Render ''booking.html'')"
    if "\<not> valid_product_id (products st) (r_product_id req)"
    using that by (intro booking_invalid_form) (simp add: validate_on_submit_def)
  have absent: "\<not> valid_product_id (products st) (r_product_id req)"
    if "Product_query_get (products st) (r_product_id req) = None"
    using that valid_product_id_found [of "products st" "r_product_id req"] by auto
  have inactive: "\<not> valid_product_id (products st) (r_product_id req)"
    if "p \<in> set (products st)" "distinct (map p_id (products st))"
      "r_product_id req = Some (p_id p)" "p_status p \<noteq> ACTIVE" for p
    using not_active_not_choice [OF that(2) that(1) that(4)] that(3) by simp
  show ?thesis
    using invalid absent inactive booking_submit_invalid_selection_iff [of env st req t]
    by blast
qed

theorem C1_product_selection_witness:
  "\<not> valid_product_id (products (sample_state [])) (r_product_id (sample_request 2)) \<and>
   distinct (map p_id (products (sample_state []))) \<and>
   Product_query_get (products (sample_state [])) (r_product_id (sample_request 9)) = None \<and>
   booking sample_env (sample_state []) (sample_request 2) =
     (sample_state [], Render ''booking.html'') \<and>
   booking sample_env (sample_state []) (sample_request 9) =
     (sample_state [], Render ''booking.html'') \<and>
   booking_submit sample_env (sample_state []) (sample_request 9) (timedelta_hours 34) =
     ((sample_state [])\<lparr>flashes := [(''Invalid service selected.'', ''error'')]\<rparr>,
      Redirect ''/booking'')"
proof -
  have a: "\<not> valid_product_id (products (sample_state [])) (r_product_id (sample_request 2))"
    by (simp add: valid_product_id_def product_choices_def sample_state_def
          sample_request_def seed_products_def)
  have b: "Product_query_get (products (sample_state [])) (r_product_id (sample_request 9)) = None"
    by (simp add: Product_query_get_def sample_state_def sample_request_def seed_products_def)
  have c: "distinct (map p_id (products (sample_state [])))"
    by (simp add: sample_state_def seed_products_def)
  have d: "flashes (sample_state []) = []"
    by (simp add: sample_state_def)
  show ?thesis
    using a b c d
      C1_product_selection [of "sample_state []" "sample_request 2" sample_env "timedelta_hours 34"]
      C1_product_selection [of "sample_state []" "sample_request 9" sample_env "timedelta_hours 34"]
    by simp
qed

lemma delete_booking_fresh:
  "b_id b \<notin> b_id ` set rows \<Longrightarrow> delete_booking b (rows @ [b]) = rows"
proof -
  assume fresh: "b_id b \<notin> b_id ` set rows"
  have "filter (\<lambda>r. b_id r \<noteq> b_id b) rows = rows"
    unfolding filter_id_conv using fresh by (metis imageI)
  then show ?thesis
    by (simp add: delete_booking_def)
qed

lemma gateway_failure_iff:
  "create_stripe_checkout_session gw product s_url c_url = None \<longleftrightarrow>
     (api_key gw = None \<or> api_key gw = Some [] \<or>
      Session_create gw (build_session_params product s_url c_url) = None)"
  by (auto simp: create_stripe_checkout_session_def)

text \<open>
  C5. A valid request whose product resolves, on a store that gives the new row an unused
  key: when the checkout session cannot be created (no API key, or the processor's call
  raises) the inserted PENDING row is deleted again. Afterwards the bookings table is the
  one before the request, no row has the new key, the session entry is untouched, the
  payment-unavailable message is flashed and the form is rendered.
\<close>

theorem C5_compensating_delete:
  assumes "validate_on_submit env st req"
    and "r_start req = Some t"
    and "Product_query_get (products st) (r_product_id req) = Some product"
    and "assigned_id env \<notin> b_id ` set (bookings st)"
    and "create_stripe_checkout_session (stripe env) product
           (callback_url env ''/booking/success'' (assigned_id env))
           (callback_url env ''/booking/cancel'' (assigned_id env)) = None"
  shows "bookings (fst (booking env st req)) = bookings st \<and>
         new_booking env product req t \<notin> set (bookings (fst (booking env st req))) \<and>
         assigned_id env \<notin> b_id ` set (bookings (fst (booking env st req))) \<and>
         session_pending_booking_id (fst (booking env st req)) = session_pending_booking_id st \<and>
         flashes (fst (booking env st req)) = flashes st @
           [(''Payment processing is currently unavailable. Please try again later.'',
             ''error'')] \<and>
         snd (booking env st req) = Render ''booking.html''"
proof -
  let ?b = "new_booking env product req t"
  have id: "b_id ?b = assigned_id env"
    by (simp add: new_booking_def)
  have del: "delete_booking ?b (bookings st @ [?b]) = bookings st"
    using assms(4) by (intro delete_booking_fresh) (simp add: id)
  have run: "booking env st req =
      (st\<lparr>flashes := flashes st @
             [(''Payment processing is currently unavailable. Please try again later.'',
               ''error'')],
           bookings := bookings st\<rparr>, Render ''booking.html'')"
    using assms(1,2,3,5) del by (simp add: booking_def booking_submit_def Let_def id)
  have gone: "?b \<notin> set (bookings st)"
    using assms(4) id by force
  show ?thesis
    using gone assms(4) by (simp add: run)
qed

theorem C5_compensating_delete_witness:
  "validate_on_submit sample_env (sample_state []) (sample_request 1) \<and>
   Product_query_get (products (sample_state [])) (r_product_id (sample_request 1)) =
     Some (hd seed_products) \<and>
   create_stripe_checkout_session (stripe sample_env) (hd seed_products)
     (callback_url sample_env ''/booking/success'' (assigned_id sample_env))
     (callback_url sample_env ''/booking/cancel'' (assigned_id sample_env)) = None \<and>
   bookings (fst (booking sample_env (sample_state []) (sample_request 1))) = [] \<and>
   flashes (fst (booking sample_env (sample_state []) (sample_request 1))) =
     [(''Payment processing is currently unavailable. Please try again later.'', ''error'')] \<and>
   snd (booking sample_env (sample_state []) (sample_request 1)) = Render ''booking.html''"
proof -
  have v: "validate_on_submit sample_env (sample_state []) (sample_request 1)"
    by (simp add: validate_on_submit_def valid_product_id_def product_choices_def
          DataRequired_def isspace_def Length_def validate_email_def validate_start_def
          check_availability_def hour_def timedelta_hours_def
          sample_env_def sample_state_def sample_request_def seed_products_def)
  have s: "r_start (sample_request 1) = Some (timedelta_hours 34)"
    by (simp add: sample_request_def)
  have p: "Product_query_get (products (sample_state [])) (r_product_id (sample_request 1)) =
      Some (hd seed_products)"
    by (simp add: Product_query_get_def sample_state_def sample_request_def seed_products_def)
  have f: "assigned_id sample_env \<notin> b_id ` set (bookings (sample_state []))"
    by (simp add: sample_state_def)
  have g: "create_stripe_checkout_session (stripe sample_env) (hd seed_products)
     (callback_url sample_env ''/booking/success'' (assigned_id sample_env))
     (callback_url sample_env ''/booking/cancel'' (assigned_id sample_env)) = None"
    by (simp add: create_stripe_checkout_session_def sample_env_def sample_stripe_def)
  show ?thesis
    using v p g C5_compensating_delete [OF v s p f g]
    by (simp add: sample_state_def)
qed

section \<open>Reservation resolver\<close>


lemma Booking_query_get_Some:
  "Booking_query_get env rows key = Some b \<Longrightarrow> b \<in> set rows"
  by (auto simp: Booking_query_get_def dest: find_Some_set split: ident.splits option.splits)

lemma lookup_booking_Some:
  "lookup_booking env st req = Some b \<Longrightarrow> b \<in> set (bookings st)"
  by (auto simp: lookup_booking_def resolve_booking_id_def
           dest: Booking_query_get_Some split: if_splits option.splits)

lemma success_bookings:
  "bookings (fst (booking_success env st req)) =
     (case lookup_booking env st req of
        None \<Rightarrow> bookings st
      | Some b \<Rightarrow> confirm_booking b (payment_reference req) (bookings st))"
  by (simp add: booking_success_def resolve_booking_id_def Let_def
           split: option.splits prod.splits)

lemma cancel_bookings:
  "bookings (fst (booking_cancel env st req)) =
     (case lookup_booking env st req of
        None \<Rightarrow> bookings st
      | Some b \<Rightarrow> delete_booking b (bookings st))"
  by (simp add: booking_cancel_def resolve_booking_id_def Let_def
           split: option.splits prod.splits)

lemma confirm_booking_other:
  "r \<in> set rows \<Longrightarrow> b_id r \<noteq> b_id b \<Longrightarrow> r \<in> set (confirm_booking b ref rows)"
  by (force simp: confirm_booking_def)

lemma confirm_booking_status:
  "r \<in> set (confirm_booking b ref rows) \<Longrightarrow> b_id r = b_id b \<Longrightarrow>
   b_status r = CONFIRMED \<and> b_stripe_payment_id r = Some ref"
  by (auto simp: confirm_booking_def split: if_splits)

lemma confirm_booking_self:
  "b \<in> set rows \<Longrightarrow>
   b\<lparr>b_status := CONFIRMED, b_stripe_payment_id := Some ref\<rparr> \<in> set (confirm_booking b ref rows)"
  by (force simp: confirm_booking_def)

lemma confirm_booking_ids:
  "map b_id (confirm_booking b ref rows) = map b_id rows"
  by (simp add: confirm_booking_def)

lemma delete_booking_other:
  "r \<in> set rows \<Longrightarrow> b_id r \<noteq> b_id b \<Longrightarrow> r \<in> set (delete_booking b rows)"
  by (simp add: delete_booking_def)

lemma delete_booking_gone:
  "r \<in> set (delete_booking b rows) \<Longrightarrow> r \<in> set rows \<and> b_id r \<noteq> b_id b"
  by (simp add: delete_booking_def)

lemma booking_bookings:
  assumes "assigned_id env \<notin> b_id ` set (bookings st)"
  shows "bookings (fst (booking env st req)) = bookings st \<or>
         (\<exists>b. bookings (fst (booking env st req)) = bookings st @ [b] \<and>
              b_id b = assigned_id env \<and> b_status b = PENDING)"
proof (cases "validate_on_submit env st req")
  case False
  then show ?thesis by (simp add: booking_invalid_form)
next
  case True
  show ?thesis
  proof (cases "r_start req")
    case None
    with True show ?thesis by (simp add: booking_def)
  next
    case (Some t)
    show ?thesis
    proof (cases "Product_query_get (products st) (r_product_id req)")
      case None
      with True Some show ?thesis by (simp add: booking_def booking_submit_def)
    next
      case found: (Some product)
      let ?b = "new_booking env product req t"
      have b: "b_id ?b = assigned_id env" "b_status ?b = PENDING"
        by (simp_all add: new_booking_def)
      have del: "delete_booking ?b (bookings st @ [?b]) = bookings st"
        using assms by (intro delete_booking_fresh) (simp add: b)
      show ?thesis
      proof (cases "create_stripe_checkout_session (stripe env) product
          (callback_url env ''/booking/success'' (assigned_id env))
          (callback_url env ''/booking/cancel'' (assigned_id env))")
        case None
        with True Some found del show ?thesis
          by (simp add: booking_def booking_submit_def Let_def b)
      next
        case paid: (Some checkout)
        with True Some found have "bookings (fst (booking env st req)) = bookings st @ [?b]"
          by (simp add: booking_def booking_submit_def Let_def b)
        with b show ?thesis by blast
      qed
    qed
  qed
qed

text \<open>
  C2, as stated, fails: neither callback reads the status of the booking it resolves. The
  cancel callback deletes a CONFIRMED booking, and the success callback sets a CANCELLED
  booking to CONFIRMED.
\<close>

theorem C2_not_pending_counterexample:
  "bookings (fst (booking_cancel sample_env
     (sample_state [sample_booking 1 (timedelta_hours 34) CONFIRMED])
     \<lparr>a_booking_id = Some ''1'', a_payment_intent = None\<rparr>)) = [] \<and>
   map b_status (bookings (fst (booking_success sample_env
     (sample_state [sample_booking 1 (timedelta_hours 34) CANCELLED])
     \<lparr>a_booking_id = Some ''1'', a_payment_intent = None\<rparr>))) = [CONFIRMED]"
  by (simp add: cancel_bookings success_bookings lookup_booking_def resolve_booking_id_def
        Booking_query_get_def delete_booking_def confirm_booking_def
        sample_env_def sample_state_def sample_booking_def)

text \<open>
  C2, amended. The transitions the callbacks perform on the bookings table are: the
  success callback sets the booking it resolves to CONFIRMED, and the cancel callback
  deletes the booking it resolves, in both cases whatever that booking's status is
  (PENDING, CONFIRMED, COMPLETED or CANCELLED; a PENDING booking thus becomes CONFIRMED or
  is deleted). Every booking with another id is kept unchanged, the success callback
  neither adds nor removes a row, and a callback that resolves no booking leaves the
  table as it is. The booking route, on a store that gives the new row an unused key,
  leaves the table as it is or adds one PENDING row to it.
\<close>

theorem C2_status_transitions:
  "(assigned_id env \<notin> b_id ` set (bookings st) \<longrightarrow>
      bookings (fst (booking env st breq)) = bookings st \<or>
      (\<exists>b. bookings (fst (booking env st breq)) = bookings st @ [b] \<and>
           b_id b = assigned_id env \<and> b_status b = PENDING)) \<and>
   (lookup_booking env st req = None \<longrightarrow>
      bookings (fst (booking_success env st req)) = bookings st \<and>
      bookings (fst (booking_cancel env st req)) = bookings st) \<and>
   (\<forall>b. lookup_booking env st req = Some b \<longrightarrow>
      b \<in> set (bookings st) \<and>
      map b_id (bookings (fst (booking_success env st req))) = map b_id (bookings st) \<and>
      (\<forall>r \<in> set (bookings (fst (booking_success env st req))).
         b_id r = b_id b \<longrightarrow> b_status r = CONFIRMED) \<and>
      (\<forall>r \<in> set (bookings (fst (booking_cancel env st req))).
         r \<in> set (bookings st) \<and> b_id r \<noteq> b_id b) \<and>
      (\<forall>r \<in> set (bookings st).
         b_id r \<noteq> b_id b \<longrightarrow>
           r \<in> set (bookings (fst (booking_success env st req))) \<and>
           r \<in> set (bookings (fst (booking_cancel env st req)))))"
proof -
  have none: "bookings (fst (booking_success env st req)) = bookings st \<and>
      bookings (fst (booking_cancel env st req)) = bookings st"
    if "lookup_booking env st req = None"
    using that by (simp add: success_bookings cancel_bookings)
  have some: "b \<in> set (bookings st) \<and>
      map b_id (bookings (fst (booking_success env st req))) = map b_id (bookings st) \<and>
      (\<forall>r \<in> set (bookings (fst (booking_success env st req))).
         b_id r = b_id b \<longrightarrow> b_status r = CONFIRMED) \<and>
      (\<forall>r \<in> set (bookings (fst (booking_cancel env st req))).
         r \<in> set (bookings st) \<and> b_id r \<noteq> b_id b) \<and>
      (\<forall>r \<in> set (bookings st).
         b_id r \<noteq> b_id b \<longrightarrow>
           r \<in> set (bookings (fst (booking_success env st req))) \<and>
           r \<in> set (bookings (fst (booking_cancel env st req))))"
    if l: "lookup_booking env st req = Some b" for b
  proof -
    have s: "bookings (fst (booking_success env st req)) =
        confirm_booking b (payment_reference req) (bookings st)"
      using l by (simp add: success_bookings)
    have c: "bookings (fst (booking_cancel env st req)) = delete_booking b (bookings st)"
      using l by (simp add: cancel_bookings)
    show ?thesis
      unfolding s c
      using lookup_booking_Some [OF l] confirm_booking_ids confirm_booking_status
        delete_booking_gone confirm_booking_other delete_booking_other
      by blast
  qed
  show ?thesis
    using none some booking_bookings [of env st breq] by blast
qed

theorem C2_status_transitions_witness:
  "assigned_id (sample_env\<lparr>stripe := working_stripe\<rparr>) \<notin> b_id ` set (bookings (sample_state [])) \<and>
   map b_status (bookings (fst (booking (sample_env\<lparr>stripe := working_stripe\<rparr>)
     (sample_state []) (sample_request 1)))) = [PENDING] \<and>
   lookup_booking sample_env (sample_state [sample_booking 1 (timedelta_hours 34) PENDING])
     \<lparr>a_booking_id = Some ''1'', a_payment_intent = None\<rparr> =
     Some (sample_booking 1 (timedelta_hours 34) PENDING) \<and>
   lookup_booking sample_env (sample_state [sample_booking 1 (timedelta_hours 34) PENDING])
     \<lparr>a_booking_id = Some ''7'', a_payment_intent = None\<rparr> = None \<and>
   map b_status (bookings (fst (booking_success sample_env
     (sample_state [sample_booking 1 (timedelta_hours 34) PENDING])
     \<lparr>a_booking_id = Some ''1'', a_payment_intent = None\<rparr>))) = [CONFIRMED] \<and>
   bookings (fst (booking_cancel sample_env
     (sample_state [sample_booking 1 (timedelta_hours 34) PENDING])
     \<lparr>a_booking_id = Some ''1'', a_payment_intent = None\<rparr>)) = [] \<and>
   bookings (fst (booking_cancel sample_env
     (sample_state [sample_booking 1 (timedelta_hours 34) PENDING])
     \<lparr>a_booking_id = Some ''7'', a_payment_intent = None\<rparr>)) =
     [sample_booking 1 (timedelta_hours 34) PENDING]"
proof -
  let ?b = "sample_booking 1 (timedelta_hours 34) PENDING"
  let ?st = "sample_state [?b]"
  let ?hit = "\<lparr>a_booking_id = Some ''1'', a_payment_intent = None\<rparr>"
  let ?miss = "\<lparr>a_booking_id = Some ''7'', a_payment_intent = None\<rparr>"
  let ?env = "sample_env\<lparr>stripe := working_stripe\<rparr>"
  have hit: "lookup_booking sample_env ?st ?hit = Some ?b"
    by (simp add: lookup_booking_def resolve_booking_id_def Booking_query_get_def
          sample_env_def sample_state_def sample_booking_def)
  have miss: "lookup_booking sample_env ?st ?miss = None"
    by (simp add: lookup_booking_def resolve_booking_id_def Booking_query_get_def
          sample_env_def sample_state_def)
  have rows: "bookings ?st = [?b]" "bookings (sample_state []) = []"
    by (simp_all add: sample_state_def)
  have fresh: "assigned_id ?env \<notin> b_id ` set (bookings (sample_state []))"
    by (simp add: rows)
  note hit_inst = C2_status_transitions [where env = sample_env and st = ?st
      and req = ?hit and breq = "sample_request 1"]
  note miss_inst = C2_status_transitions [where env = sample_env and st = ?st
      and req = ?miss and breq = "sample_request 1"]
  note new_inst = C2_status_transitions [where env = ?env and st = "sample_state []"
      and req = ?hit and breq = "sample_request 1"]
  have ids: "map b_id (bookings (fst (booking_success sample_env ?st ?hit))) = [b_id ?b]"
    and confirmed: "\<forall>r \<in> set (bookings (fst (booking_success sample_env ?st ?hit))).
        b_id r = b_id ?b \<longrightarrow> b_status r = CONFIRMED"
    and deleted: "\<forall>r \<in> set (bookings (fst (booking_cancel sample_env ?st ?hit))).
        r \<in> set (bookings ?st) \<and> b_id r \<noteq> b_id ?b"
    using hit_inst hit rows by simp_all
  have kept: "bookings (fst (booking_cancel sample_env ?st ?miss)) = [?b]"
    using miss_inst miss rows by simp
  from ids obtain r where r: "bookings (fst (booking_success sample_env ?st ?hit)) = [r]"
    "b_id r = b_id ?b"
    by auto
  with confirmed have one: "map b_status (bookings (fst (booking_success sample_env ?st ?hit))) =
      [CONFIRMED]"
    by simp
  from deleted rows have none: "bookings (fst (booking_cancel sample_env ?st ?hit)) = []"
    by (cases "bookings (fst (booking_cancel sample_env ?st ?hit))") auto
  have valid: "validate_on_submit ?env (sample_state []) (sample_request 1)"
    by (simp add: validate_on_submit_def valid_product_id_def product_choices_def
          DataRequired_def isspace_def Length_def validate_email_def validate_start_def
          check_availability_def hour_def timedelta_hours_def
          sample_env_def sample_state_def sample_request_def seed_products_def)
  have changed: "bookings (fst (booking ?env (sample_state []) (sample_request 1))) \<noteq> []"
    using valid
    by (simp add: booking_def booking_submit_def Product_query_get_def Let_def
          create_stripe_checkout_session_def working_stripe_def
          sample_env_def sample_state_def sample_request_def seed_products_def)
  from new_inst fresh changed rows(2)
  have "\<exists>b. bookings (fst (booking ?env (sample_state []) (sample_request 1))) = [] @ [b] \<and>
      b_id b = assigned_id ?env \<and> b_status b = PENDING"
    by metis
  then have created: "map b_status (bookings (fst (booking ?env (sample_state [])
      (sample_request 1)))) = [PENDING]"
    by auto
  show ?thesis
    using fresh created hit miss one none kept by simp
qed

lemma find_Some_ex:
  "x \<in> set xs \<Longrightarrow> P x \<Longrightarrow> \<exists>y. find P xs = Some y \<and> y \<in> set xs \<and> P y"
  by (cases "find P xs") (auto simp: find_None_set dest: find_Some_set)



lemma lookup_known_id:
  assumes "a_booking_id req = Some s" and "s \<noteq> []"
    and "key_of_text env s = Some (b_id b)" and "b \<in> set (bookings st)"
  shows "\<exists>b0. lookup_booking env st req = Some b0 \<and> b_id b0 = b_id b"
proof -
  from assms(4) obtain b0 where "find (\<lambda>r. b_id r = b_id b) (bookings st) = Some b0"
    and "b_id b0 = b_id b"
    using find_Some_ex [of b "bookings st" "\<lambda>r. b_id r = b_id b"] by auto
  then show ?thesis
    using assms(1,2,3)
    by (simp add: lookup_booking_def resolve_booking_id_def Booking_query_get_def)
qed




lemma Booking_query_get_stripe:
  "Booking_query_get (env\<lparr>stripe := gw\<rparr>) rows key = Booking_query_get env rows key"
  by (cases key) (simp_all add: Booking_query_get_def)

lemma lookup_booking_stripe:
  "lookup_booking (env\<lparr>stripe := gw\<rparr>) st req = lookup_booking env st req"
  by (simp add: lookup_booking_def Booking_query_get_stripe split: prod.splits option.splits)

lemma Booking_query_get_depends:
  "key_of_text env' = key_of_text env \<Longrightarrow>
   Booking_query_get env' rows key = Booking_query_get env rows key"
  by (cases key) (simp_all add: Booking_query_get_def)

lemma lookup_booking_depends:
  assumes "bookings st' = bookings st"
    and "session_pending_booking_id st' = session_pending_booking_id st"
    and "key_of_text env' = key_of_text env"
  shows "lookup_booking env' st' req = lookup_booking env st req"
  using assms(1,2)
  by (auto simp: lookup_booking_def resolve_booking_id_def
        Booking_query_get_depends [OF assms(3)] split: option.splits)

text \<open>
  C10. The success callback does not read the payment processor. Replacing the processor
  by any other one, whatever payments it recorded, changes neither the resulting state
  nor the answer. The bookings table it leaves is determined by the bookings table it
  finds, the booking id supplied (request parameter or session entry, as the store reads
  it) and the \<open>payment_intent\<close> parameter. A request that presents the id of an
  existing booking leaves every row with that id CONFIRMED.
\<close>

theorem C10_success_ignores_gateway:
  "booking_success (env\<lparr>stripe := gw\<rparr>) st req = booking_success env st req \<and>
   (bookings st' = bookings st \<and>
    session_pending_booking_id st' = session_pending_booking_id st \<and>
    key_of_text env' = key_of_text env
      \<longrightarrow> bookings (fst (booking_success env' st' req)) =
            bookings (fst (booking_success env st req))) \<and>
   (\<forall>b \<in> set (bookings st). \<forall>s.
      a_booking_id req = Some s \<and> s \<noteq> [] \<and> key_of_text env s = Some (b_id b) \<longrightarrow>
        (\<exists>r \<in> set (bookings (fst (booking_success (env\<lparr>stripe := gw\<rparr>) st req))).
           b_id r = b_id b) \<and>
        (\<forall>r \<in> set (bookings (fst (booking_success (env\<lparr>stripe := gw\<rparr>) st req))).
           b_id r = b_id b \<longrightarrow> b_status r = CONFIRMED))"
proof -
  have same: "booking_success (env\<lparr>stripe := gw\<rparr>) st req = booking_success env st req"
    by (simp add: booking_success_def lookup_booking_stripe)
  have confirmed:
    "(\<exists>r \<in> set (bookings (fst (booking_success env st req))). b_id r = b_id b) \<and>
     (\<forall>r \<in> set (bookings (fst (booking_success env st req))).
        b_id r = b_id b \<longrightarrow> b_status r = CONFIRMED)"
    if "b \<in> set (bookings st)" "a_booking_id req = Some s" "s \<noteq> []"
      "key_of_text env s = Some (b_id b)" for b s
  proof -
    from lookup_known_id [OF that(2,3,4,1)]
    obtain b0 where l: "lookup_booking env st req = Some b0" and i: "b_id b0 = b_id b"
      by blast
    have rows: "bookings (fst (booking_success env st req)) =
        confirm_booking b0 (payment_reference req) (bookings st)"
      using l by (simp add: success_bookings)
    have "b_id (b0\<lparr>b_status := CONFIRMED,
        b_stripe_payment_id := Some (payment_reference req)\<rparr>) = b_id b"
      using i by simp
    then have ex: "\<exists>r \<in> set (confirm_booking b0 (payment_reference req) (bookings st)).
        b_id r = b_id b"
      using confirm_booking_self [OF lookup_booking_Some [OF l]] by blast
    show ?thesis
      unfolding rows using ex confirm_booking_status i by metis
  qed
  have depends: "bookings (fst (booking_success env' st' req)) =
      bookings (fst (booking_success env st req))"
    if "bookings st' = bookings st"
      "session_pending_booking_id st' = session_pending_booking_id st"
      "key_of_text env' = key_of_text env"
    unfolding success_bookings lookup_booking_depends [OF that] that(1) ..
  show ?thesis
    unfolding same using confirmed depends by blast
qed

theorem C10_success_ignores_gateway_witness:
  "sample_booking 1 (timedelta_hours 34) PENDING
     \<in> set (bookings (sample_state [sample_booking 1 (timedelta_hours 34) PENDING])) \<and>
   key_of_text sample_env ''1'' = Some (b_id (sample_booking 1 (timedelta_hours 34) PENDING)) \<and>
   \<not> payment_succeeded (stripe sample_env) ''cs_1'' \<and>
   booking_success
     (sample_env\<lparr>stripe := sample_stripe\<lparr>payment_succeeded := (\<lambda>u. True)\<rparr>\<rparr>)
     (sample_state [sample_booking 1 (timedelta_hours 34) PENDING])
     \<lparr>a_booking_id = Some ''1'', a_payment_intent = None\<rparr> =
   booking_success sample_env
     (sample_state [sample_booking 1 (timedelta_hours 34) PENDING])
     \<lparr>a_booking_id = Some ''1'', a_payment_intent = None\<rparr> \<and>
   bookings (fst (booking_success (sample_env\<lparr>clock_utcnow := 5, stripe := working_stripe\<rparr>)
     ((sample_state [sample_booking 1 (timedelta_hours 34) PENDING])\<lparr>products := []\<rparr>)
     \<lparr>a_booking_id = Some ''1'', a_payment_intent = None\<rparr>)) =
   bookings (fst (booking_success sample_env
     (sample_state [sample_booking 1 (timedelta_hours 34) PENDING])
     \<lparr>a_booking_id = Some ''1'', a_payment_intent = None\<rparr>)) \<and>
   map b_status (bookings (fst (booking_success
        (sample_env\<lparr>stripe := sample_stripe\<lparr>payment_succeeded := (\<lambda>u. True)\<rparr>\<rparr>)
        (sample_state [sample_booking 1 (timedelta_hours 34) PENDING])
        \<lparr>a_booking_id = Some ''1'', a_payment_intent = None\<rparr>))) = [CONFIRMED] \<and>
   map b_status (bookings (fst (booking_success sample_env
        (sample_state [sample_booking 1 (timedelta_hours 34) PENDING])
        \<lparr>a_booking_id = Some ''1'', a_payment_intent = None\<rparr>))) = [CONFIRMED]"
proof -
  let ?b = "sample_booking 1 (timedelta_hours 34) PENDING"
  let ?st = "sample_state [?b]"
  let ?req = "\<lparr>a_booking_id = Some ''1'', a_payment_intent = None\<rparr>"
  have m: "?b \<in> set (bookings ?st)"
    by (simp add: sample_state_def)
  have k: "key_of_text sample_env ''1'' = Some (b_id ?b)" "b_id ?b = 1"
    by (simp_all add: sample_env_def sample_booking_def)
  have u: "\<not> payment_succeeded (stripe sample_env) ''cs_1''"
    by (simp add: sample_env_def sample_stripe_def)
  let ?gw = "sample_stripe\<lparr>payment_succeeded := (\<lambda>u. True)\<rparr>"
  note inst = C10_success_ignores_gateway [where env = sample_env and gw = ?gw
      and st = ?st and req = ?req
      and env' = "sample_env\<lparr>clock_utcnow := 5, stripe := working_stripe\<rparr>"
      and st' = "?st\<lparr>products := []\<rparr>"]
  have dep: "bookings (fst (booking_success
        (sample_env\<lparr>clock_utcnow := 5, stripe := working_stripe\<rparr>)
        (?st\<lparr>products := []\<rparr>) ?req)) =
      bookings (fst (booking_success sample_env ?st ?req))"
    using inst [THEN conjunct2, THEN conjunct1] by simp
  have same: "booking_success (sample_env\<lparr>stripe := ?gw\<rparr>) ?st ?req =
      booking_success sample_env ?st ?req"
    using inst by (rule conjunct1)
  have step: "a_booking_id ?req = Some ''1'' \<and> ''1'' \<noteq> [] \<and>
      key_of_text sample_env ''1'' = Some (b_id ?b)"
    using k(1) by simp
  have "\<forall>r \<in> set (bookings (fst (booking_success (sample_env\<lparr>stripe := ?gw\<rparr>) ?st ?req))).
      b_id r = b_id ?b \<longrightarrow> b_status r = CONFIRMED"
    using inst [THEN conjunct2, THEN conjunct2, THEN bspec, OF m, THEN spec, THEN mp, OF step]
    by (rule conjunct2)
  then have conf: "\<forall>r \<in> set (bookings (fst (booking_success
      (sample_env\<lparr>stripe := ?gw\<rparr>) ?st ?req))). b_id r = 1 \<longrightarrow> b_status r = CONFIRMED"
    by (simp only: k(2))
  have "lookup_booking (sample_env\<lparr>stripe := ?gw\<rparr>) ?st ?req = Some ?b"
    by (simp add: lookup_booking_def resolve_booking_id_def Booking_query_get_def
          sample_env_def sample_state_def sample_booking_def)
  then have "map b_id (bookings (fst (booking_success (sample_env\<lparr>stripe := ?gw\<rparr>) ?st ?req))) =
      map b_id (bookings ?st)"
    by (simp add: success_bookings confirm_booking_ids)
  then have ids: "map b_id (bookings (fst (booking_success
      (sample_env\<lparr>stripe := ?gw\<rparr>) ?st ?req))) = [1]"
    by (simp add: sample_state_def sample_booking_def)
  then obtain r where r: "bookings (fst (booking_success
      (sample_env\<lparr>stripe := ?gw\<rparr>) ?st ?req)) = [r]" "b_id r = 1"
    by auto
  with conf have one: "map b_status (bookings (fst (booking_success
      (sample_env\<lparr>stripe := ?gw\<rparr>) ?st ?req))) = [CONFIRMED]"
    by simp
  then have two: "map b_status (bookings (fst (booking_success sample_env ?st ?req))) =
      [CONFIRMED]"
    by (simp only: same)
  show ?thesis
    using m k(1) u same dep one two by blast
qed

section \<open>Unit amount\<close>

lemma build_line_items_ad_hoc:
  "p_stripe_price_id product = None \<or> p_stripe_price_id product = Some [] \<Longrightarrow>
   build_line_items product =
     [PriceDataItem \<lparr>currency = ''usd'', product_data_name = p_name product,
        product_data_description = p_description product,
        unit_amount = unit_amount_of (p_price product)\<rparr> 1]"
  by (auto simp: build_line_items_def)

lemma bitlen_values:
  "bitlen 100 = 7" "bitlen 1999 = 11" "bitlen 7500 = 13"
  by (simp_all add: bitlen.simps)

lemma float_of_decimal_1999:
  "float_of_decimal 1999 = Double False 5626684784446013 (- 48)"
  by (simp add: float_of_decimal_def round_binary64_def round_half_even_def
        bitlen_values Let_def)

lemma float_of_decimal_7500:
  "float_of_decimal 7500 = Double False 5277655813324800 (- 46)"
  by (simp add: float_of_decimal_def round_binary64_def round_half_even_def
        bitlen_values Let_def)

lemma unit_amount_of_1999: "unit_amount_of 1999 = 1998"
  by (simp add: unit_amount_of_def float_of_decimal_1999 float_times_def int_of_double_def
        round_binary64_def round_half_even_def bitlen.simps Let_def)

lemma unit_amount_of_7500: "unit_amount_of 7500 = 7500"
  by (simp add: unit_amount_of_def float_of_decimal_7500 float_times_def int_of_double_def
        round_binary64_def round_half_even_def bitlen.simps Let_def)

text \<open>
  C6. For the seeded product at 75.00 the line item has currency \<open>usd\<close> and unit
  amount 7500. For a product at 19.99 with no stored price reference the unit amount is
  1998, not 1999: \<open>float(19.99) * 100\<close> is 1998.9999999999998 and \<open>int\<close> truncates it.
\<close>

theorem C6_unit_amount_truncates:
  "build_line_items (hd seed_products) =
     [PriceDataItem \<lparr>currency = ''usd'', product_data_name = ''Premium Mobile Detail'',
        product_data_description = p_description (hd seed_products),
        unit_amount = 7500\<rparr> 1] \<and>
   build_line_items
     \<lparr>p_id = 5, p_name = ''Express Wash'', p_description = None, p_price = 1999,
      p_status = ACTIVE, p_is_membership = False, p_stripe_price_id = None\<rparr> =
     [PriceDataItem \<lparr>currency = ''usd'', product_data_name = ''Express Wash'',
        product_data_description = None, unit_amount = 1998\<rparr> 1]"
  by (simp add: build_line_items_def seed_products_def unit_amount_of_1999 unit_amount_of_7500)

end
